theory Spec2Isabelle
  imports Complex_Main
begin

section \<open>JavaScript values\<close>

text \<open>
  The functions of \<^verbatim>\<open>OfferDuration.js\<close> and \<^verbatim>\<open>MembersAPI.js\<close> take untyped
  JavaScript values. A number is an IEEE double: NaN, an infinity, or a finite value,
  and every finite double is a rational.
\<close>

datatype js_number = NaN | Infinity bool | Finite rat

datatype js_value =
    JSUndefined
  | JSNull
  | JSBoolean bool
  | JSNumber js_number
  | JSString string
  | JSObject nat

text \<open>\<^verbatim>\<open>!v\<close> is true for exactly the falsy values.\<close>

fun js_truthy :: "js_value \<Rightarrow> bool" where
  "js_truthy JSUndefined = False"
| "js_truthy JSNull = False"
| "js_truthy (JSBoolean b) = b"
| "js_truthy (JSNumber NaN) = False"
| "js_truthy (JSNumber (Infinity s)) = True"
| "js_truthy (JSNumber (Finite q)) = (q \<noteq> 0)"
| "js_truthy (JSString s) = (s \<noteq> [])"
| "js_truthy (JSObject r) = True"

fun js_typeof :: "js_value \<Rightarrow> string" where
  "js_typeof JSUndefined = ''undefined''"
| "js_typeof JSNull = ''object''"
| "js_typeof (JSBoolean b) = ''boolean''"
| "js_typeof (JSNumber n) = ''number''"
| "js_typeof (JSString s) = ''string''"
| "js_typeof (JSObject r) = ''object''"

text \<open>\<^verbatim>\<open>Number.isInteger\<close>: a finite number with no fractional part.\<close>

fun Number_isInteger :: "js_value \<Rightarrow> bool" where
  "Number_isInteger (JSNumber (Finite q)) = (of_int \<lfloor>q\<rfloor> = q)"
| "Number_isInteger v = False"

section \<open>OfferDuration.create\<close>

datatype offer_error = InvalidOfferDuration string

text \<open>
  The properties handed to the \<^verbatim>\<open>OfferDuration\<close> constructor: \<^verbatim>\<open>{type}\<close> or
  \<^verbatim>\<open>{type, months}\<close>. An absent \<^verbatim>\<open>months\<close> property is \<open>None\<close>.
\<close>

record offer_duration =
  type :: js_value
  months :: "js_value option"

definition create :: "js_value \<Rightarrow> js_value \<Rightarrow> offer_error + offer_duration" where
  "create type' months' =
    (if \<not> js_truthy type' \<or> js_typeof type' \<noteq> ''string'' then
       Inl (InvalidOfferDuration ''Offer `duration` must be a string.'')
     else if type' \<noteq> JSString ''once'' \<and> type' \<noteq> JSString ''repeating''
             \<and> type' \<noteq> JSString ''forever'' then
       Inl (InvalidOfferDuration
         ''Offer `duration` must be one of \"once\", \"repeating\" or \"forever\".'')
     else if type' \<noteq> JSString ''repeating'' then
       Inr \<lparr>type = type', months = None\<rparr>
     else if js_typeof months' \<noteq> ''number'' then
       Inl (InvalidOfferDuration
         ''Offer `duration` must have include `duration_in_months` when \"repeating\".'')
     else if \<not> Number_isInteger months' then
       Inl (InvalidOfferDuration ''Offer `duration_in_months` must be an integer.'')
     else Inr \<lparr>type = type', months = Some months'\<rparr>)"

text \<open>An integer number: a value of type number that is an integer.\<close>

definition integer_number :: "js_value \<Rightarrow> bool" where
  "integer_number v = (js_typeof v = ''number'' \<and> Number_isInteger v)"

definition duration_names :: "js_value set" where
  "duration_names = {JSString ''once'', JSString ''repeating'', JSString ''forever''}"

section \<open>hasActiveStripeSubscriptions\<close>

text \<open>
  \<^verbatim>\<open>StripeCustomerSubscription\<close> is a model injected by the host application. Its table
  is a list of rows, and \<^verbatim>\<open>findOne({status: s})\<close> yields a row with that status, or
  null when there is none.
\<close>

record subscription =
  subscription_id :: string
  status :: string

definition findOne :: "subscription list \<Rightarrow> string \<Rightarrow> subscription option" where
  "findOne table s = find (\<lambda>row. status row = s) table"

definition hasActiveStripeSubscriptions :: "subscription list \<Rightarrow> bool" where
  "hasActiveStripeSubscriptions table =
    (case findOne table ''active'' of
       Some firstActiveSubscription \<Rightarrow> True
     | None \<Rightarrow>
    (case findOne table ''trialing'' of
       Some firstTrialingSubscription \<Rightarrow> True
     | None \<Rightarrow>
    (case findOne table ''unpaid'' of
       Some firstUnpaidSubscription \<Rightarrow> True
     | None \<Rightarrow>
    (case findOne table ''past_due'' of
       Some firstPastDueSubscription \<Rightarrow> True
     | None \<Rightarrow> False))))"

definition active_statuses :: "string set" where
  "active_statuses = {''active'', ''trialing'', ''past_due'', ''unpaid''}"

section \<open>JSON text\<close>

text \<open>
  The value a geolocation lookup yields is JSON data. \<^verbatim>\<open>JSON.stringify\<close> maps
  \<^verbatim>\<open>undefined\<close> to \<^verbatim>\<open>undefined\<close> and every JSON value to its text; numbers are
  limited to integers here, and string escaping to the quote and the backslash.
\<close>

datatype json =
    JNull
  | JBool bool
  | JNum int
  | JStr string
  | JArr "json list"
  | JObj "(string \<times> json) list"

fun digits :: "nat \<Rightarrow> string" where
  "digits n =
     (if n < 10 then [char_of (48 + n)] else digits (n div 10) @ [char_of (48 + n mod 10)])"

declare digits.simps [simp del]

definition show_int :: "int \<Rightarrow> string" where
  "show_int i = (if i < 0 then CHR ''-'' # digits (nat (- i)) else digits (nat i))"

fun escape :: "char \<Rightarrow> string" where
  "escape c = (if c = CHR 0x22 \<or> c = CHR 0x5C then [CHR 0x5C, c] else [c])"

definition quote :: "string \<Rightarrow> string" where
  "quote s = CHR 0x22 # concat (map escape s) @ [CHR 0x22]"

fun join :: "string list \<Rightarrow> string" where
  "join [] = []"
| "join [x] = x"
| "join (x # y # ys) = x @ CHR '','' # join (y # ys)"

primrec stringify :: "json \<Rightarrow> string" where
  "stringify JNull = ''null''"
| "stringify (JBool b) = (if b then ''true'' else ''false'')"
| "stringify (JNum i) = show_int i"
| "stringify (JStr s) = quote s"
| "stringify (JArr xs) = CHR ''['' # join (map stringify xs) @ '']''"
| "stringify (JObj ps) =
     CHR ''{'' # join (map (\<lambda>(k, v). quote k @ CHR '':'' # v)
                          (map (map_prod id stringify) ps)) @ ''}''"

text \<open>\<open>None\<close> is \<^verbatim>\<open>undefined\<close>, on both sides.\<close>

definition JSON_stringify :: "json option \<Rightarrow> string option" where
  "JSON_stringify v = (case v of None \<Rightarrow> None | Some j \<Rightarrow> Some (stringify j))"

text \<open>
  A string that may be \<^verbatim>\<open>undefined\<close> is a \<open>string option\<close>. In a condition it is
  truthy when it is defined and not empty; \<open>truthy\<close> keeps a truthy string and maps
  a falsy one to \<open>None\<close>.
\<close>

definition truthy :: "string option \<Rightarrow> string option" where
  "truthy v = (case v of None \<Rightarrow> None | Some s \<Rightarrow> if s = [] then None else Some s)"

section \<open>Members, repositories and services\<close>

datatype error =
    IncorrectUsageError string
  | NotFoundError string
  | TypeError string
  | ConflictError string
  | ServiceError string

record member =
  member_id :: nat
  email :: string
  name :: string
  labels :: "string list"
  geolocation :: "string option"

text \<open>What \<^verbatim>\<open>magicLinkService.sendMagicLink\<close> is called with.\<close>

record magic_link =
  link_email :: string
  link_type :: string
  link_requestSrc :: string
  link_tokenData :: "(string \<times> js_value) list"

text \<open>
  The calls made on the member repository (\<^verbatim>\<open>users\<close>), the member BREAD service,
  the login event model and the magic link service, in program order.
\<close>

datatype call =
    UsersGet string
  | UsersCreate string string "string list"
  | UsersUpdate member nat
  | BreadRead string
  | LoginEventAdd nat
  | SendMagicLink magic_link

record world =
  members :: "member list"
  loginEvents :: "nat list"
  calls :: "call list"

definition called :: "call \<Rightarrow> world \<Rightarrow> world" where
  "called c w = w\<lparr>calls := calls w @ [c]\<rparr>"

definition by_email :: "string \<Rightarrow> member list \<Rightarrow> member option" where
  "by_email e ms = find (\<lambda>m. email m = e) ms"

definition by_id :: "nat \<Rightarrow> member list \<Rightarrow> member option" where
  "by_id i ms = find (\<lambda>m. member_id m = i) ms"

fun max_id :: "member list \<Rightarrow> nat" where
  "max_id [] = 0"
| "max_id (m # ms) = max (member_id m) (max_id ms)"

text \<open>
  Modelled from the spec: \<^verbatim>\<open>repositories/member\<close> is not among the sources. Section 4.4:
  \<^verbatim>\<open>get(by: {id|email}) -> Member|null\<close>.
\<close>

definition users_get :: "world \<Rightarrow> string \<Rightarrow> member option \<times> world" where
  "users_get w e = (by_email e (members w), called (UsersGet e) w)"

text \<open>
  Modelled from the spec: \<^verbatim>\<open>repositories/member\<close> is not among the sources. Section 4.4:
  \<^verbatim>\<open>create(attrs) -> Member\<close> fails with Conflict if the email is already present. The
  new member gets an id that no member has, and no geolocation.
\<close>

definition users_create ::
  "world \<Rightarrow> string \<Rightarrow> string \<Rightarrow> string list \<Rightarrow> (error + member) \<times> world" where
  "users_create w n e ls =
    (case by_email e (members w) of
       Some taken \<Rightarrow> (Inl (ConflictError e), called (UsersCreate n e ls) w)
     | None \<Rightarrow>
         (let newMember = \<lparr>member_id = Suc (max_id (members w)), email = e, name = n,
                           labels = ls, geolocation = None\<rparr>
          in (Inr newMember,
              called (UsersCreate n e ls) (w\<lparr>members := members w @ [newMember]\<rparr>))))"

text \<open>
  Modelled from the spec: \<^verbatim>\<open>repositories/member\<close> is not among the sources. Section 4.4:
  \<^verbatim>\<open>update(attrs, by) -> Member\<close> is a partial update, and updating the email
  re-validates uniqueness; section 4.3: the update fails with Conflict if the new email
  is already taken by a different member; section 7: an operation on a member that does
  not exist is NotFound. The id of a member never changes.
\<close>

definition users_update :: "world \<Rightarrow> member \<Rightarrow> nat \<Rightarrow> (error + member) \<times> world" where
  "users_update w data i =
    (case find (\<lambda>m. email m = email data \<and> member_id m \<noteq> i) (members w) of
       Some taken \<Rightarrow> (Inl (ConflictError (email data)), called (UsersUpdate data i) w)
     | None \<Rightarrow>
    (case by_id i (members w) of
       None \<Rightarrow> (Inl (NotFoundError []), called (UsersUpdate data i) w)
     | Some old \<Rightarrow>
         (let updated = data\<lparr>member_id := i\<rparr>
          in (Inr updated,
              called (UsersUpdate data i)
                (w\<lparr>members := map (\<lambda>m. if member_id m = i then updated else m)
                                   (members w)\<rparr>)))))"

text \<open>
  Modelled from the spec: \<^verbatim>\<open>services/member-bread\<close> is not among the sources. Section
  4.3, step 5: the identity projection of the member with that email, null when there is
  none. The projection is the member record.
\<close>

definition memberBREADService_read :: "world \<Rightarrow> string \<Rightarrow> member option \<times> world" where
  "memberBREADService_read w e = (by_email e (members w), called (BreadRead e) w)"

text \<open>
  Modelled from the spec: \<^verbatim>\<open>MemberLoginEvent\<close> is a model injected by the host
  application. Section 4.6: \<^verbatim>\<open>add(event)\<close> is a pure append.
\<close>

definition MemberLoginEvent_add :: "world \<Rightarrow> nat \<Rightarrow> world" where
  "MemberLoginEvent_add w i = called (LoginEventAdd i) (w\<lparr>loginEvents := loginEvents w @ [i]\<rparr>)"

text \<open>
  Modelled from the spec: the magic link package is not among the sources. Section 4.2:
  the service produces the link from the email, the intent and the token data, and hands
  it to the delivery collaborator. The link is what the service was called with.
\<close>

definition sendMagicLink :: "world \<Rightarrow> magic_link \<Rightarrow> magic_link \<times> world" where
  "sendMagicLink w l = (l, called (SendMagicLink l) w)"

text \<open>\<^verbatim>\<open>Object.assign(target, source)\<close>: the properties of the source win.\<close>

fun set_prop :: "string \<Rightarrow> 'v \<Rightarrow> (string \<times> 'v) list \<Rightarrow> (string \<times> 'v) list" where
  "set_prop k v [] = [(k, v)]"
| "set_prop k v ((k', v') # ps) =
     (if k = k' then (k, v) # ps else (k', v') # set_prop k v ps)"

definition Object_assign ::
  "(string \<times> 'v) list \<Rightarrow> (string \<times> 'v) list option \<Rightarrow> (string \<times> 'v) list" where
  "Object_assign target source =
     (case source of None \<Rightarrow> target
      | Some ps \<Rightarrow> fold (\<lambda>(k, v). set_prop k v) ps target)"

section \<open>sendEmailWithMagicLink\<close>

record email_options =
  forceEmailType :: bool

text \<open>
  The argument object. \<open>None\<close> is a property that the caller left out; \<^verbatim>\<open>options\<close>
  and \<^verbatim>\<open>requestSrc\<close> then take their defaults.
\<close>

record send_args =
  arg_email :: string
  arg_requestedType :: string
  arg_tokenData :: "(string \<times> js_value) list option"
  arg_options :: "email_options option"
  arg_requestSrc :: "string option"

definition sendEmailWithMagicLink :: "world \<Rightarrow> send_args \<Rightarrow> magic_link \<times> world" where
  "sendEmailWithMagicLink w args =
    (let options = (case arg_options args of
                      None \<Rightarrow> \<lparr>forceEmailType = False\<rparr> | Some given \<Rightarrow> given);
         requestSrc = (case arg_requestSrc args of None \<Rightarrow> [] | Some given \<Rightarrow> given);
         e = arg_email args;
         requestedType = arg_requestedType args;
         (type', w1) =
           (if \<not> forceEmailType options then
              (case users_get w e of
                 (Some member, w') \<Rightarrow> (''signin'', w')
               | (None, w') \<Rightarrow>
                   (if requestedType \<noteq> ''subscribe'' then (''signup'', w')
                    else (requestedType, w')))
            else (requestedType, w))
     in sendMagicLink w1
          \<lparr>link_email = e, link_type = type', link_requestSrc = requestSrc,
           link_tokenData = Object_assign [(''email'', JSString e)] (arg_tokenData args)\<rparr>)"

section \<open>getMemberDataFromMagicLinkToken\<close>

text \<open>The decoded token: a property that the token lacks is \<open>None\<close>.\<close>

record token_data =
  tok_email :: "string option"
  tok_labels :: "string list option"
  tok_name :: "string option"
  tok_oldEmail :: "string option"

definition getMemberIdentityData :: "world \<Rightarrow> string \<Rightarrow> member option \<times> world" where
  "getMemberIdentityData w e = memberBREADService_read w e"

text \<open>
  \<^verbatim>\<open>magicLinkService.getDataFromToken\<close> verifies the token with the injected token
  provider; it is a parameter, and may throw.
\<close>

definition getMemberDataFromMagicLinkToken ::
  "('t \<Rightarrow> error + token_data) \<Rightarrow> world \<Rightarrow> 't \<Rightarrow> (error + member option) \<times> world" where
  "getMemberDataFromMagicLinkToken getDataFromToken w token =
    (case getDataFromToken token of
       Inl err \<Rightarrow> (Inl err, w)
     | Inr data \<Rightarrow>
    (let labels' = (case tok_labels data of None \<Rightarrow> [] | Some ls \<Rightarrow> ls);
         name' = (case tok_name data of None \<Rightarrow> [] | Some n \<Rightarrow> n);
         oldEmail = truthy (tok_oldEmail data)
     in
     case truthy (tok_email data) of
       None \<Rightarrow> (Inr None, w)
     | Some e \<Rightarrow>
    (case (case oldEmail of
             Some old \<Rightarrow> getMemberIdentityData w old
           | None \<Rightarrow> getMemberIdentityData w e) of
       (Some member, w1) \<Rightarrow>
         (let w2 = MemberLoginEvent_add w1 (member_id member)
          in case oldEmail of
               Some old \<Rightarrow>
                 (let member' = member\<lparr>email := e\<rparr>
                  in case users_update w2 member' (member_id member') of
                       (Inl err, w3) \<Rightarrow> (Inl err, w3)
                     | (Inr saved, w3) \<Rightarrow>
                         (case getMemberIdentityData w3 e of
                            (identity, w4) \<Rightarrow> (Inr identity, w4)))
             | None \<Rightarrow> (Inr (Some member), w2))
     | (None, w1) \<Rightarrow>
         (case users_create w1 name' e labels' of
            (Inl err, w2) \<Rightarrow> (Inl err, w2)
          | (Inr newMember, w2) \<Rightarrow>
              (let w3 = MemberLoginEvent_add w2 (member_id newMember)
               in case getMemberIdentityData w3 e of
                    (identity, w4) \<Rightarrow> (Inr identity, w4))))))"

section \<open>setMemberGeolocationFromIp\<close>

text \<open>
  \<^verbatim>\<open>toJSON()\<close> yields the data of a model as a plain object, and every object is
  truthy.
\<close>

definition toJSON :: "member \<Rightarrow> member" where
  "toJSON model = model"

definition object_truthy :: "member \<Rightarrow> bool" where
  "object_truthy obj = True"

text \<open>
  \<^verbatim>\<open>geolocationService.getGeolocationFromIP\<close> is a parameter: it throws, or yields
  \<^verbatim>\<open>undefined\<close> (\<open>None\<close>) or JSON data. Calling \<^verbatim>\<open>toJSON\<close> on \<^verbatim>\<open>null\<close> is a
  TypeError of the language.
\<close>

definition setMemberGeolocationFromIp ::
  "(string \<Rightarrow> error + json option) \<Rightarrow> world \<Rightarrow> string \<Rightarrow> string
     \<Rightarrow> (error + member option) \<times> world" where
  "setMemberGeolocationFromIp getGeolocationFromIP w e ip =
    (if e = [] \<or> ip = [] then
       (Inl (IncorrectUsageError
          ''setMemberGeolocationFromIp() expects email and ip arguments to be present''), w)
     else
    (case users_get w e of
       (None, w1) \<Rightarrow>
         (Inl (TypeError ''Cannot read properties of null (reading 'toJSON')''), w1)
     | (Some model, w1) \<Rightarrow>
    (let member = toJSON model in
     if \<not> object_truthy member then
       (Inl (NotFoundError (''Member with email address '' @ e @ '' does not exist'')), w1)
     else
    (case getGeolocationFromIP ip of
       Inl err \<Rightarrow> (Inl err, w1)
     | Inr looked_up \<Rightarrow>
    (case truthy (JSON_stringify looked_up) of
       Some geolocation' \<Rightarrow>
         (let member' = member\<lparr>geolocation := Some geolocation'\<rparr>
          in case users_update w1 member' (member_id member') of
               (Inl err, w2) \<Rightarrow> (Inl err, w2)
             | (Inr saved, w2) \<Rightarrow>
                 (case getMemberIdentityData w2 e of
                    (identity, w3) \<Rightarrow> (Inr identity, w3)))
     | None \<Rightarrow>
         (case getMemberIdentityData w1 e of
            (identity, w2) \<Rightarrow> (Inr identity, w2)))))))"

section \<open>The webhook handler\<close>

record request =
  body :: "string option"
  stripe_signature :: "string option"

record stripe_event =
  event_id :: string
  event_type :: string

text \<open>A thrown error; \<^verbatim>\<open>statusCode\<close> is \<open>None\<close> when the error has none.\<close>

record thrown =
  statusCode :: "int option"
  message :: string

datatype log_entry = LogError string | LogInfo string

datatype service_call = ParseWebhook string string | HandleWebhook stripe_event

text \<open>
  What the handler leaves behind: the status written with \<^verbatim>\<open>res.writeHead\<close>, whether
  \<^verbatim>\<open>res.end\<close> was called, the error the handler itself rejects with, if any, the
  log, the calls made on the webhook service, and the state of the repositories, which
  only \<^verbatim>\<open>handleWebhook\<close> changes.
\<close>

record 's outcome =
  res_status :: "int option"
  res_ended :: bool
  rejected :: "string option"
  logged :: "log_entry list"
  invoked :: "service_call list"
  state :: 's

text \<open>\<^verbatim>\<open>err.statusCode || 500\<close>: a missing or zero status code is falsy.\<close>

definition statusCode_or_500 :: "thrown \<Rightarrow> int" where
  "statusCode_or_500 err =
     (case statusCode err of None \<Rightarrow> 500 | Some c \<Rightarrow> if c = 0 then 500 else c)"

text \<open>
  \<^verbatim>\<open>res.writeHead\<close> of Node throws a RangeError for a status code outside 100..999,
  and writes nothing then.
\<close>

definition writeHead :: "int \<Rightarrow> string + int" where
  "writeHead c =
     (if c < 100 \<or> 999 < c then Inl ''RangeError [ERR_HTTP_INVALID_STATUS_CODE]''
      else Inr c)"

text \<open>
  \<^verbatim>\<open>stripeAPIService.configured\<close>, \<^verbatim>\<open>stripeWebhookService.parseWebhook\<close> and
  \<^verbatim>\<open>stripeWebhookService.handleWebhook\<close> are parameters. \<^verbatim>\<open>handleWebhook\<close> yields
  the error it throws, if any, and the state it leaves. The raw body is a buffer, truthy
  whenever it is there. The statuses 400, 401 and 200 are in the range of
  \<^verbatim>\<open>writeHead\<close>; the status of the catch block is whatever the error carries, and
  when \<^verbatim>\<open>writeHead\<close> throws there, \<^verbatim>\<open>res.end\<close> is not reached and the handler
  rejects.
\<close>

definition handleStripeWebhook ::
  "bool \<Rightarrow> (string \<Rightarrow> string \<Rightarrow> thrown + stripe_event)
     \<Rightarrow> (stripe_event \<Rightarrow> 's \<Rightarrow> thrown option \<times> 's) \<Rightarrow> request \<Rightarrow> 's \<Rightarrow> 's outcome" where
  "handleStripeWebhook configured parseWebhook handleWebhook req s =
    (if \<not> configured then
       \<lparr>res_status = Some 400, res_ended = True, rejected = None,
        logged = [LogError ''Stripe not configured, not handling webhook''],
        invoked = [], state = s\<rparr>
     else
    (case (body req, truthy (stripe_signature req)) of
       (Some raw, Some signature) \<Rightarrow>
         (case parseWebhook raw signature of
            Inl err \<Rightarrow>
              \<lparr>res_status = Some 401, res_ended = True, rejected = None,
               logged = [LogError (message err)],
               invoked = [ParseWebhook raw signature], state = s\<rparr>
          | Inr event \<Rightarrow>
              (case handleWebhook event s of
                 (None, s') \<Rightarrow>
                   \<lparr>res_status = Some 200, res_ended = True, rejected = None,
                    logged = [LogInfo (''Handling webhook '' @ event_type event)],
                    invoked = [ParseWebhook raw signature, HandleWebhook event],
                    state = s'\<rparr>
               | (Some err, s') \<Rightarrow>
                   (case writeHead (statusCode_or_500 err) of
                      Inr written \<Rightarrow>
                        \<lparr>res_status = Some written, res_ended = True, rejected = None,
                         logged = [LogInfo (''Handling webhook '' @ event_type event),
                                   LogError (''Error handling webhook '' @ event_type event)],
                         invoked = [ParseWebhook raw signature, HandleWebhook event],
                         state = s'\<rparr>
                    | Inl range_error \<Rightarrow>
                        \<lparr>res_status = None, res_ended = False, rejected = Some range_error,
                         logged = [LogInfo (''Handling webhook '' @ event_type event),
                                   LogError (''Error handling webhook '' @ event_type event)],
                         invoked = [ParseWebhook raw signature, HandleWebhook event],
                         state = s'\<rparr>)))
     | other \<Rightarrow>
         \<lparr>res_status = Some 400, res_ended = True, rejected = None, logged = [],
          invoked = [], state = s\<rparr>))"

section \<open>Concrete inputs\<close>

text \<open>The worlds, tokens and collaborators at which the theorems below are evaluated.\<close>

definition alice :: member where
  "alice = \<lparr>member_id = 1, email = ''alice@example.com'', name = ''Alice'',
            labels = [], geolocation = None\<rparr>"

definition bob :: member where
  "bob = \<lparr>member_id = 2, email = ''bob@example.com'', name = ''Bob'',
          labels = [''vip''], geolocation = None\<rparr>"

definition one_member :: world where
  "one_member = \<lparr>members = [alice], loginEvents = [], calls = []\<rparr>"

definition two_members :: world where
  "two_members = \<lparr>members = [alice, bob], loginEvents = [], calls = []\<rparr>"

definition token_without_email :: "string \<Rightarrow> error + token_data" where
  "token_without_email token =
     Inr \<lparr>tok_email = None, tok_labels = None, tok_name = Some ''Carol'', tok_oldEmail = None\<rparr>"

definition token_for_carol :: "string \<Rightarrow> error + token_data" where
  "token_for_carol token =
     Inr \<lparr>tok_email = Some ''carol@example.com'', tok_labels = None, tok_name = None,
          tok_oldEmail = None\<rparr>"

definition token_for_alice :: "string \<Rightarrow> error + token_data" where
  "token_for_alice token =
     Inr \<lparr>tok_email = Some ''alice@example.com'', tok_labels = None, tok_name = None,
          tok_oldEmail = None\<rparr>"

definition token_alice_to_bob :: "string \<Rightarrow> error + token_data" where
  "token_alice_to_bob token =
     Inr \<lparr>tok_email = Some ''bob@example.com'', tok_labels = None, tok_name = None,
          tok_oldEmail = Some ''alice@example.com''\<rparr>"

definition token_alice_to_carol :: "string \<Rightarrow> error + token_data" where
  "token_alice_to_carol token =
     Inr \<lparr>tok_email = Some ''carol@example.com'', tok_labels = None, tok_name = None,
          tok_oldEmail = Some ''alice@example.com''\<rparr>"

definition geo_times_out :: "string \<Rightarrow> error + json option" where
  "geo_times_out ip = Inl (ServiceError ''Timeout awaiting request for 500ms'')"

definition geo_null :: "string \<Rightarrow> error + json option" where
  "geo_null ip = Inr (Some JNull)"

definition geo_undefined :: "string \<Rightarrow> error + json option" where
  "geo_undefined ip = Inr None"

definition geo_found :: "string \<Rightarrow> error + json option" where
  "geo_found ip = Inr (Some (JObj [(''country'', JStr ''GB'')]))"

definition webhook_request :: request where
  "webhook_request = \<lparr>body = Some ''{}'', stripe_signature = Some ''t=1,v1=5257a8''\<rparr>"


definition parse_rejects :: "string \<Rightarrow> string \<Rightarrow> thrown + stripe_event" where
  "parse_rejects raw signature =
     Inl \<lparr>statusCode = None, message = ''No signatures found matching the expected signature''\<rparr>"


text \<open>A \<^verbatim>\<open>handleWebhook\<close> that adds a login event for every member and succeeds.\<close>

definition handle_mutates :: "stripe_event \<Rightarrow> world \<Rightarrow> thrown option \<times> world" where
  "handle_mutates event w =
     (None, w\<lparr>loginEvents := loginEvents w @ map member_id (members w)\<rparr>)"




definition token_zed_to_bob :: "string \<Rightarrow> error + token_data" where
  "token_zed_to_bob token =
     Inr \<lparr>tok_email = Some ''bob@example.com'', tok_labels = None, tok_name = None,
          tok_oldEmail = Some ''zed@example.com''\<rparr>"

definition token_zed_to_carol :: "string \<Rightarrow> error + token_data" where
  "token_zed_to_carol token =
     Inr \<lparr>tok_email = Some ''carol@example.com'', tok_labels = None, tok_name = None,
          tok_oldEmail = Some ''zed@example.com''\<rparr>"

section \<open>Notions of the specification\<close>

text \<open>The force option is set: \<^verbatim>\<open>options.forceEmailType\<close> is truthy.\<close>

definition force_set :: "send_args \<Rightarrow> bool" where
  "force_set args =
     (case arg_options args of None \<Rightarrow> False | Some given \<Rightarrow> forceEmailType given)"


section \<open>Theorems\<close>

lemma findOne_None_iff: "findOne table s = None \<longleftrightarrow> (\<forall>row \<in> set table. status row \<noteq> s)"
  by (auto simp: findOne_def find_None_iff)

lemma hasActive_iff:
  "hasActiveStripeSubscriptions table \<longleftrightarrow>
     (\<exists>row \<in> set table. status row \<in> active_statuses)"
proof -
  have "hasActiveStripeSubscriptions table \<longleftrightarrow>
        \<not> (findOne table ''active'' = None \<and> findOne table ''trialing'' = None
           \<and> findOne table ''unpaid'' = None \<and> findOne table ''past_due'' = None)"
    by (simp add: hasActiveStripeSubscriptions_def split: option.splits)
  also have "\<dots> \<longleftrightarrow> (\<exists>row \<in> set table. status row \<in> active_statuses)"
    unfolding findOne_None_iff active_statuses_def by blast
  finally show ?thesis .
qed

text \<open>
  C4. \<^verbatim>\<open>hasActiveStripeSubscriptions\<close> returns true if and only if some subscription has
  a status among active, trialing, past_due and unpaid; when every subscription has a
  status outside that set, it returns false.
\<close>

theorem hasActiveStripeSubscriptions_iff:
  "(hasActiveStripeSubscriptions table \<longleftrightarrow>
      (\<exists>row \<in> set table. status row \<in> active_statuses))
   \<and> ((\<forall>row \<in> set table. status row \<notin> active_statuses) \<longrightarrow>
        \<not> hasActiveStripeSubscriptions table)"
  using hasActive_iff [of table] by blast

theorem hasActiveStripeSubscriptions_iff_witness:
  "hasActiveStripeSubscriptions
     [\<lparr>subscription_id = ''sub_1'', status = ''canceled''\<rparr>,
      \<lparr>subscription_id = ''sub_2'', status = ''past_due''\<rparr>]
   \<and> \<not> hasActiveStripeSubscriptions
     [\<lparr>subscription_id = ''sub_1'', status = ''canceled''\<rparr>,
      \<lparr>subscription_id = ''sub_3'', status = ''incomplete''\<rparr>]"
  using hasActiveStripeSubscriptions_iff
          [of "[\<lparr>subscription_id = ''sub_1'', status = ''canceled''\<rparr>,
                \<lparr>subscription_id = ''sub_2'', status = ''past_due''\<rparr>]"]
        hasActiveStripeSubscriptions_iff
          [of "[\<lparr>subscription_id = ''sub_1'', status = ''canceled''\<rparr>,
                \<lparr>subscription_id = ''sub_3'', status = ''incomplete''\<rparr>]"]
  by (simp add: active_statuses_def)

lemma create_cases:
  "create t m =
    (if t \<notin> duration_names then create t m
     else if t \<noteq> JSString ''repeating'' then Inr \<lparr>type = t, months = None\<rparr>
     else if integer_number m then Inr \<lparr>type = t, months = Some m\<rparr>
     else create t m)"
  by (auto simp: create_def duration_names_def integer_number_def)

lemma create_throws_iff:
  "(\<exists>msg. create t m = Inl (InvalidOfferDuration msg)) \<longleftrightarrow>
     (t \<notin> duration_names \<or> (t = JSString ''repeating'' \<and> \<not> integer_number m))"
  by (auto simp: create_def duration_names_def integer_number_def)

text \<open>
  C10. \<^verbatim>\<open>OfferDuration.create(type, months)\<close> throws InvalidOfferDuration if and only
  if type is not one of the strings once, repeating, forever, or type is repeating and
  months is not an integer number; otherwise it returns a value carrying the given type,
  and carrying months exactly when type is repeating.
\<close>

theorem create_spec:
  "((\<exists>msg. create t m = Inl (InvalidOfferDuration msg)) \<longleftrightarrow>
      (t \<notin> duration_names \<or> (t = JSString ''repeating'' \<and> \<not> integer_number m)))
   \<and> (\<not> (t \<notin> duration_names \<or> (t = JSString ''repeating'' \<and> \<not> integer_number m)) \<longrightarrow>
        create t m = Inr \<lparr>type = t,
                          months = (if t = JSString ''repeating'' then Some m else None)\<rparr>)"
  using create_throws_iff [of t m] create_cases [of t m] by auto

lemma floor_three_halves: "\<lfloor>3 / 2 :: rat\<rfloor> = 1"
  by (simp add: floor_eq_iff)

theorem create_spec_witness:
  "create (JSString ''repeating'') (JSNumber (Finite 3))
     = Inr \<lparr>type = JSString ''repeating'', months = Some (JSNumber (Finite 3))\<rparr>
   \<and> create (JSString ''once'') JSUndefined
     = Inr \<lparr>type = JSString ''once'', months = None\<rparr>
   \<and> (\<exists>msg. create (JSString ''repeating'') (JSNumber (Finite (3 / 2)))
              = Inl (InvalidOfferDuration msg))
   \<and> (\<exists>msg. create (JSString ''monthly'') (JSNumber (Finite 3))
              = Inl (InvalidOfferDuration msg))"
  using create_spec [of "JSString ''repeating''" "JSNumber (Finite 3)"]
        create_spec [of "JSString ''once''" JSUndefined]
        create_spec [of "JSString ''repeating''" "JSNumber (Finite (3 / 2))"]
        create_spec [of "JSString ''monthly''" "JSNumber (Finite 3)"]
  by (simp add: duration_names_def integer_number_def floor_three_halves)

subsection \<open>Lookups in the member table\<close>

lemma by_email_append:
  "by_email e (ms @ [m]) =
     (case by_email e ms of Some x \<Rightarrow> Some x
      | None \<Rightarrow> if email m = e then Some m else None)"
  unfolding by_email_def by (induction ms) simp_all

lemma max_id_ge: "m \<in> set ms \<Longrightarrow> member_id m \<le> max_id ms"
  by (induction ms) auto

lemma fresh_id: "Suc (max_id ms) \<notin> member_id ` set ms"
proof
  assume "Suc (max_id ms) \<in> member_id ` set ms"
  then obtain m where "m \<in> set ms" and "member_id m = Suc (max_id ms)" by auto
  with max_id_ge [of m ms] show False by simp
qed

lemma by_email_updated:
  assumes "find (\<lambda>m. email m = e \<and> member_id m \<noteq> i) ms = None"
    and "\<exists>m \<in> set ms. member_id m = i"
    and "email u = e"
  shows "by_email e (map (\<lambda>m. if member_id m = i then u else m) ms) = Some u"
  using assms unfolding by_email_def
  by (induction ms) (auto split: if_splits)

lemma by_id_updated:
  assumes "\<exists>m \<in> set ms. member_id m = i" and "member_id u = i"
  shows "by_id i (map (\<lambda>m. if member_id m = i then u else m) ms) = Some u"
  using assms unfolding by_id_def
  by (induction ms) (auto split: if_splits)

lemma by_email_in: "by_email e ms = Some m \<Longrightarrow> m \<in> set ms \<and> email m = e"
  unfolding by_email_def by (induction ms) (auto split: if_splits)

lemma by_id_in: "m \<in> set ms \<Longrightarrow> by_id (member_id m) ms \<noteq> None"
  unfolding by_id_def by (induction ms) auto

lemma truthy_Some: "s \<noteq> [] \<Longrightarrow> truthy (Some s) = Some s"
  by (simp add: truthy_def)

subsection \<open>The paths of getMemberDataFromMagicLinkToken\<close>

lemmas redeem_defs =
  getMemberDataFromMagicLinkToken_def getMemberIdentityData_def memberBREADService_read_def
  MemberLoginEvent_add_def called_def Let_def

lemma redeem_found_plain:
  assumes "getDataFromToken token = Inr data"
    and "truthy (tok_email data) = Some e"
    and "truthy (tok_oldEmail data) = None"
    and "by_email e (members w) = Some m"
  shows "getMemberDataFromMagicLinkToken getDataFromToken w token =
           (Inr (Some m),
            w\<lparr>loginEvents := loginEvents w @ [member_id m],
              calls := calls w @ [BreadRead e, LoginEventAdd (member_id m)]\<rparr>)"
  using assms by (simp add: redeem_defs)

lemma redeem_created:
  assumes "getDataFromToken token = Inr data"
    and "truthy (tok_email data) = Some e"
    and "truthy (tok_oldEmail data) = None"
    and "by_email e (members w) = None"
    and "n = (case tok_name data of None \<Rightarrow> [] | Some given \<Rightarrow> given)"
    and "ls = (case tok_labels data of None \<Rightarrow> [] | Some given \<Rightarrow> given)"
    and "new = \<lparr>member_id = Suc (max_id (members w)), email = e, name = n,
                 labels = ls, geolocation = None\<rparr>"
  shows "getMemberDataFromMagicLinkToken getDataFromToken w token =
           (Inr (Some new),
            w\<lparr>members := members w @ [new],
              loginEvents := loginEvents w @ [member_id new],
              calls := calls w @ [BreadRead e, UsersCreate n e ls,
                                  LoginEventAdd (member_id new), BreadRead e]\<rparr>)"
  using assms by (simp add: redeem_defs users_create_def by_email_append)

lemma redeem_change_ok:
  assumes "getDataFromToken token = Inr data"
    and "truthy (tok_email data) = Some b"
    and "truthy (tok_oldEmail data) = Some a"
    and "by_email a (members w) = Some m"
    and "find (\<lambda>x. email x = b \<and> member_id x \<noteq> member_id m) (members w) = None"
  shows "getMemberDataFromMagicLinkToken getDataFromToken w token =
           (Inr (Some (m\<lparr>email := b\<rparr>)),
            w\<lparr>members := map (\<lambda>x. if member_id x = member_id m then m\<lparr>email := b\<rparr> else x)
                              (members w),
              loginEvents := loginEvents w @ [member_id m],
              calls := calls w @ [BreadRead a, LoginEventAdd (member_id m),
                                  UsersUpdate (m\<lparr>email := b\<rparr>) (member_id m),
                                  BreadRead b]\<rparr>)"
proof -
  from assms(4) have in_ms: "m \<in> set (members w)"
    by (simp add: by_email_in)
  then have "by_id (member_id m) (members w) \<noteq> None"
    by (rule by_id_in)
  then obtain old where old: "by_id (member_id m) (members w) = Some old"
    by blast
  from in_ms have ex: "\<exists>x \<in> set (members w). member_id x = member_id m"
    by blast
  have look: "by_email b (map (\<lambda>x. if member_id x = member_id m then m\<lparr>email := b\<rparr> else x)
                              (members w)) = Some (m\<lparr>email := b\<rparr>)"
    by (rule by_email_updated [OF assms(5) ex]) simp
  show ?thesis
    using assms old look by (simp add: redeem_defs users_update_def)
qed

lemma redeem_change_conflict:
  assumes "getDataFromToken token = Inr data"
    and "truthy (tok_email data) = Some b"
    and "truthy (tok_oldEmail data) = Some a"
    and "by_email a (members w) = Some m"
    and "find (\<lambda>x. email x = b \<and> member_id x \<noteq> member_id m) (members w) = Some other"
  shows "getMemberDataFromMagicLinkToken getDataFromToken w token =
           (Inl (ConflictError b),
            w\<lparr>loginEvents := loginEvents w @ [member_id m],
              calls := calls w @ [BreadRead a, LoginEventAdd (member_id m),
                                  UsersUpdate (m\<lparr>email := b\<rparr>) (member_id m)]\<rparr>)"
  using assms by (simp add: redeem_defs users_update_def)

lemma redeem_change_missing_created:
  assumes "getDataFromToken token = Inr data"
    and "truthy (tok_email data) = Some b"
    and "truthy (tok_oldEmail data) = Some a"
    and "by_email a (members w) = None"
    and "by_email b (members w) = None"
    and "n = (case tok_name data of None \<Rightarrow> [] | Some given \<Rightarrow> given)"
    and "ls = (case tok_labels data of None \<Rightarrow> [] | Some given \<Rightarrow> given)"
    and "new = \<lparr>member_id = Suc (max_id (members w)), email = b, name = n,
                 labels = ls, geolocation = None\<rparr>"
  shows "getMemberDataFromMagicLinkToken getDataFromToken w token =
           (Inr (Some new),
            w\<lparr>members := members w @ [new],
              loginEvents := loginEvents w @ [member_id new],
              calls := calls w @ [BreadRead a, UsersCreate n b ls,
                                  LoginEventAdd (member_id new), BreadRead b]\<rparr>)"
  using assms by (simp add: redeem_defs users_create_def by_email_append)

lemma redeem_change_missing_conflict:
  assumes "getDataFromToken token = Inr data"
    and "truthy (tok_email data) = Some b"
    and "truthy (tok_oldEmail data) = Some a"
    and "by_email a (members w) = None"
    and "by_email b (members w) = Some holder"
    and "n = (case tok_name data of None \<Rightarrow> [] | Some given \<Rightarrow> given)"
    and "ls = (case tok_labels data of None \<Rightarrow> [] | Some given \<Rightarrow> given)"
  shows "getMemberDataFromMagicLinkToken getDataFromToken w token =
           (Inl (ConflictError b),
            w\<lparr>calls := calls w @ [BreadRead a, UsersCreate n b ls]\<rparr>)"
  using assms by (simp add: redeem_defs users_create_def)

lemma redeem_found_login_event:
  assumes "getDataFromToken token = Inr data"
    and "truthy (tok_email data) = Some e"
    and "by_email (case truthy (tok_oldEmail data) of Some old \<Rightarrow> old | None \<Rightarrow> e)
           (members w) = Some m"
  shows "loginEvents (snd (getMemberDataFromMagicLinkToken getDataFromToken w token)) =
           loginEvents w @ [member_id m]"
proof (cases "truthy (tok_oldEmail data)")
  case None
  with assms show ?thesis
    by (simp add: redeem_found_plain)
next
  case (Some a)
  with assms(3) have found: "by_email a (members w) = Some m"
    by simp
  show ?thesis
  proof (cases "find (\<lambda>x. email x = e \<and> member_id x \<noteq> member_id m) (members w)")
    case None
    with assms(1,2) \<open>truthy (tok_oldEmail data) = Some a\<close> found show ?thesis
      using redeem_change_ok [of getDataFromToken token data e a w m] by simp
  next
    case (Some other)
    with assms(1,2) \<open>truthy (tok_oldEmail data) = Some a\<close> found show ?thesis
      using redeem_change_conflict [of getDataFromToken token data e a w m other] by simp
  qed
qed

text \<open>
  C1. Without the force option, the intent that \<^verbatim>\<open>sendEmailWithMagicLink\<close> hands to the
  magic link service is signin if a member with that email exists, otherwise the
  requested intent if it was subscribe, otherwise signup. With the force option set, the
  requested intent is used unchanged, and the member repository is not consulted.
\<close>

theorem sendEmailWithMagicLink_intent:
  "link_type (fst (sendEmailWithMagicLink w args)) =
     (if force_set args then arg_requestedType args
      else if by_email (arg_email args) (members w) \<noteq> None then ''signin''
      else if arg_requestedType args = ''subscribe'' then ''subscribe''
      else ''signup'')
   \<and> link_email (fst (sendEmailWithMagicLink w args)) = arg_email args
   \<and> calls (snd (sendEmailWithMagicLink w args)) =
       calls w @ (if force_set args then [] else [UsersGet (arg_email args)])
         @ [SendMagicLink (fst (sendEmailWithMagicLink w args))]
   \<and> members (snd (sendEmailWithMagicLink w args)) = members w"
  by (auto simp: sendEmailWithMagicLink_def force_set_def sendMagicLink_def users_get_def
        called_def Let_def split: option.splits prod.splits)

theorem sendEmailWithMagicLink_intent_witness:
  "link_type (fst (sendEmailWithMagicLink one_member
      \<lparr>arg_email = ''alice@example.com'', arg_requestedType = ''signup'',
       arg_tokenData = None, arg_options = None, arg_requestSrc = None\<rparr>)) = ''signin''
   \<and> link_type (fst (sendEmailWithMagicLink one_member
      \<lparr>arg_email = ''carol@example.com'', arg_requestedType = ''subscribe'',
       arg_tokenData = None, arg_options = None, arg_requestSrc = None\<rparr>)) = ''subscribe''
   \<and> link_type (fst (sendEmailWithMagicLink one_member
      \<lparr>arg_email = ''carol@example.com'', arg_requestedType = ''signin'',
       arg_tokenData = None, arg_options = None, arg_requestSrc = None\<rparr>)) = ''signup''
   \<and> link_type (fst (sendEmailWithMagicLink one_member
      \<lparr>arg_email = ''alice@example.com'', arg_requestedType = ''signup-paid'',
       arg_tokenData = Some [], arg_options = Some \<lparr>forceEmailType = True\<rparr>,
       arg_requestSrc = None\<rparr>)) = ''signup-paid''"
  using sendEmailWithMagicLink_intent [of one_member
          "\<lparr>arg_email = ''alice@example.com'', arg_requestedType = ''signup'',
            arg_tokenData = None, arg_options = None, arg_requestSrc = None\<rparr>"]
        sendEmailWithMagicLink_intent [of one_member
          "\<lparr>arg_email = ''carol@example.com'', arg_requestedType = ''subscribe'',
            arg_tokenData = None, arg_options = None, arg_requestSrc = None\<rparr>"]
        sendEmailWithMagicLink_intent [of one_member
          "\<lparr>arg_email = ''carol@example.com'', arg_requestedType = ''signin'',
            arg_tokenData = None, arg_options = None, arg_requestSrc = None\<rparr>"]
        sendEmailWithMagicLink_intent [of one_member
          "\<lparr>arg_email = ''alice@example.com'', arg_requestedType = ''signup-paid'',
            arg_tokenData = Some [], arg_options = Some \<lparr>forceEmailType = True\<rparr>,
            arg_requestSrc = None\<rparr>"]
  by (simp add: force_set_def one_member_def alice_def by_email_def)

text \<open>
  C5. When the decoded payload of the token lacks an email claim,
  \<^verbatim>\<open>getMemberDataFromMagicLinkToken\<close> returns null and raises no error; it makes no call
  on the repository, the BREAD service or the login event model, and leaves members and
  events as they were.
\<close>

theorem no_email_no_identity:
  assumes "getDataFromToken token = Inr data" and "tok_email data = None"
  shows "getMemberDataFromMagicLinkToken getDataFromToken w token = (Inr None, w)"
  using assms by (simp add: getMemberDataFromMagicLinkToken_def truthy_def)

theorem no_email_no_identity_witness:
  "token_without_email ''token'' =
     Inr \<lparr>tok_email = None, tok_labels = None, tok_name = Some ''Carol'', tok_oldEmail = None\<rparr>
   \<and> getMemberDataFromMagicLinkToken token_without_email one_member ''token''
       = (Inr None, one_member)"
  using no_email_no_identity [of token_without_email "''token''"
          "\<lparr>tok_email = None, tok_labels = None, tok_name = Some ''Carol'', tok_oldEmail = None\<rparr>"
          one_member]
  by (simp add: token_without_email_def)


text \<open>
  C6. For a redeemed token without oldEmail whose email matches no member,
  \<^verbatim>\<open>getMemberDataFromMagicLinkToken\<close> creates exactly one member from the name, email
  and labels of the payload (the name defaulting to the empty string, the labels to the
  empty list) and appends exactly one login event with the id of the new member, an id
  that no member had. When a member is found, it appends exactly one login event with the
  id of that member, also when the token carries an oldEmail.
\<close>

theorem redeem_creates_or_logs_in:
  assumes "getDataFromToken token = Inr data"
    and "tok_email data = Some e" and "e \<noteq> []"
  shows
    "(truthy (tok_oldEmail data) = None \<and> by_email e (members w) = None \<longrightarrow>
        getMemberDataFromMagicLinkToken getDataFromToken w token =
          (let n = (case tok_name data of None \<Rightarrow> [] | Some given \<Rightarrow> given);
               ls = (case tok_labels data of None \<Rightarrow> [] | Some given \<Rightarrow> given);
               new = \<lparr>member_id = Suc (max_id (members w)), email = e, name = n,
                      labels = ls, geolocation = None\<rparr>
           in (Inr (Some new),
               w\<lparr>members := members w @ [new],
                 loginEvents := loginEvents w @ [member_id new],
                 calls := calls w @ [BreadRead e, UsersCreate n e ls,
                                     LoginEventAdd (member_id new), BreadRead e]\<rparr>))
        \<and> Suc (max_id (members w)) \<notin> member_id ` set (members w))
     \<and> (\<forall>m. truthy (tok_oldEmail data) = None \<and> by_email e (members w) = Some m \<longrightarrow>
          getMemberDataFromMagicLinkToken getDataFromToken w token =
            (Inr (Some m),
             w\<lparr>loginEvents := loginEvents w @ [member_id m],
               calls := calls w @ [BreadRead e, LoginEventAdd (member_id m)]\<rparr>))
     \<and> (\<forall>m. by_email (case truthy (tok_oldEmail data) of Some old \<Rightarrow> old | None \<Rightarrow> e)
               (members w) = Some m \<longrightarrow>
          loginEvents (snd (getMemberDataFromMagicLinkToken getDataFromToken w token)) =
            loginEvents w @ [member_id m])"
proof -
  from assms(2,3) have email: "truthy (tok_email data) = Some e"
    by (simp add: truthy_Some)
  have created: "truthy (tok_oldEmail data) = None \<and> by_email e (members w) = None \<longrightarrow>
        getMemberDataFromMagicLinkToken getDataFromToken w token =
          (let n = (case tok_name data of None \<Rightarrow> [] | Some given \<Rightarrow> given);
               ls = (case tok_labels data of None \<Rightarrow> [] | Some given \<Rightarrow> given);
               new = \<lparr>member_id = Suc (max_id (members w)), email = e, name = n,
                      labels = ls, geolocation = None\<rparr>
           in (Inr (Some new),
               w\<lparr>members := members w @ [new],
                 loginEvents := loginEvents w @ [member_id new],
                 calls := calls w @ [BreadRead e, UsersCreate n e ls,
                                     LoginEventAdd (member_id new), BreadRead e]\<rparr>))"
    using redeem_created [of getDataFromToken token data e w] assms(1) email
    by (simp add: Let_def)
  have found: "\<forall>m. truthy (tok_oldEmail data) = None \<and> by_email e (members w) = Some m \<longrightarrow>
          getMemberDataFromMagicLinkToken getDataFromToken w token =
            (Inr (Some m),
             w\<lparr>loginEvents := loginEvents w @ [member_id m],
               calls := calls w @ [BreadRead e, LoginEventAdd (member_id m)]\<rparr>)"
    using redeem_found_plain [of getDataFromToken token data e w] assms(1) email
    by simp
  have logged_in: "\<forall>m. by_email (case truthy (tok_oldEmail data) of Some old \<Rightarrow> old | None \<Rightarrow> e)
               (members w) = Some m \<longrightarrow>
          loginEvents (snd (getMemberDataFromMagicLinkToken getDataFromToken w token)) =
            loginEvents w @ [member_id m]"
    using redeem_found_login_event [of getDataFromToken token data e w] assms(1) email
    by simp
  from created found logged_in fresh_id [of "members w"] show ?thesis
    by blast
qed

theorem redeem_creates_or_logs_in_witness:
  "getMemberDataFromMagicLinkToken token_for_carol one_member ''token'' =
     (Inr (Some \<lparr>member_id = 2, email = ''carol@example.com'', name = [], labels = [],
                 geolocation = None\<rparr>),
      \<lparr>members = [alice, \<lparr>member_id = 2, email = ''carol@example.com'', name = [],
                           labels = [], geolocation = None\<rparr>],
       loginEvents = [2],
       calls = [BreadRead ''carol@example.com'', UsersCreate [] ''carol@example.com'' [],
                LoginEventAdd 2, BreadRead ''carol@example.com'']\<rparr>)
   \<and> getMemberDataFromMagicLinkToken token_for_alice one_member ''token'' =
     (Inr (Some alice),
      \<lparr>members = [alice], loginEvents = [1],
       calls = [BreadRead ''alice@example.com'', LoginEventAdd 1]\<rparr>)"
  using redeem_creates_or_logs_in [of token_for_carol "''token''"
          "\<lparr>tok_email = Some ''carol@example.com'', tok_labels = None, tok_name = None,
            tok_oldEmail = None\<rparr>" "''carol@example.com''" one_member]
        redeem_creates_or_logs_in [of token_for_alice "''token''"
          "\<lparr>tok_email = Some ''alice@example.com'', tok_labels = None, tok_name = None,
            tok_oldEmail = None\<rparr>" "''alice@example.com''" one_member]
  by (simp add: token_for_carol_def token_for_alice_def one_member_def alice_def
        by_email_def truthy_def Let_def)

text \<open>
  C2, as the specification states it, fails: alice holds the address A, bob holds B, and the
  token carries oldEmail A and email B. The member is resolved by A and found, the
  repository rejects the update with a Conflict, the call fails, and the email of alice
  is still A.
\<close>

theorem email_change_conflict_counterexample:
  "by_email ''alice@example.com'' (members two_members) = Some alice
   \<and> fst (getMemberDataFromMagicLinkToken token_alice_to_bob two_members ''token'')
       = Inl (ConflictError ''bob@example.com'')
   \<and> members (snd (getMemberDataFromMagicLinkToken token_alice_to_bob two_members ''token''))
       = [alice, bob]
   \<and> email alice = ''alice@example.com''"
  by (simp add: redeem_defs users_update_def token_alice_to_bob_def two_members_def
        alice_def bob_def by_email_def by_id_def truthy_def)

text \<open>
  C2, amended. For a token whose payload carries oldEmail A and email B,
  \<^verbatim>\<open>getMemberDataFromMagicLinkToken\<close> resolves the member by A, not by B: its first
  lookup is under A, whoever holds B. If a member holds A and no other member holds B,
  then after the call the email of that member is B and the identity returned is the one
  looked up under B. If a member holds A and another member holds B, the update fails
  with a Conflict after the login event, and the member table is unchanged. If no member
  holds A, the holder of B, if any, is not logged in: a member is created under B, which
  fails with a Conflict when B is held.
\<close>

theorem redeem_email_change:
  assumes "getDataFromToken token = Inr data"
    and "tok_email data = Some b" and "b \<noteq> []"
    and "tok_oldEmail data = Some a" and "a \<noteq> []"
  shows
    "(case by_email a (members w) of
        Some m \<Rightarrow>
          (case find (\<lambda>x. email x = b \<and> member_id x \<noteq> member_id m) (members w) of
             None \<Rightarrow>
               getMemberDataFromMagicLinkToken getDataFromToken w token =
                 (Inr (Some (m\<lparr>email := b\<rparr>)),
                  w\<lparr>members := map (\<lambda>x. if member_id x = member_id m
                                           then m\<lparr>email := b\<rparr> else x) (members w),
                    loginEvents := loginEvents w @ [member_id m],
                    calls := calls w @ [BreadRead a, LoginEventAdd (member_id m),
                                        UsersUpdate (m\<lparr>email := b\<rparr>) (member_id m),
                                        BreadRead b]\<rparr>)
               \<and> by_id (member_id m)
                    (members (snd (getMemberDataFromMagicLinkToken getDataFromToken w token)))
                   = Some (m\<lparr>email := b\<rparr>)
               \<and> fst (getMemberDataFromMagicLinkToken getDataFromToken w token)
                   = Inr (by_email b
                       (members (snd (getMemberDataFromMagicLinkToken getDataFromToken w token))))
           | Some other \<Rightarrow>
               getMemberDataFromMagicLinkToken getDataFromToken w token =
                 (Inl (ConflictError b),
                  w\<lparr>loginEvents := loginEvents w @ [member_id m],
                    calls := calls w @ [BreadRead a, LoginEventAdd (member_id m),
                                        UsersUpdate (m\<lparr>email := b\<rparr>) (member_id m)]\<rparr>))
      | None \<Rightarrow>
          (let n = (case tok_name data of None \<Rightarrow> [] | Some given \<Rightarrow> given);
               ls = (case tok_labels data of None \<Rightarrow> [] | Some given \<Rightarrow> given);
               new = \<lparr>member_id = Suc (max_id (members w)), email = b, name = n,
                      labels = ls, geolocation = None\<rparr>
           in case by_email b (members w) of
                None \<Rightarrow>
                  getMemberDataFromMagicLinkToken getDataFromToken w token =
                    (Inr (Some new),
                     w\<lparr>members := members w @ [new],
                       loginEvents := loginEvents w @ [member_id new],
                       calls := calls w @ [BreadRead a, UsersCreate n b ls,
                                           LoginEventAdd (member_id new), BreadRead b]\<rparr>)
              | Some holder \<Rightarrow>
                  getMemberDataFromMagicLinkToken getDataFromToken w token =
                    (Inl (ConflictError b),
                     w\<lparr>calls := calls w @ [BreadRead a, UsersCreate n b ls]\<rparr>)))"
proof -
  from assms(2,3) have new: "truthy (tok_email data) = Some b"
    by (simp add: truthy_Some)
  from assms(4,5) have old: "truthy (tok_oldEmail data) = Some a"
    by (simp add: truthy_Some)
  show ?thesis
  proof (cases "by_email a (members w)")
    case (Some m)
    note holds = this
    show ?thesis
    proof (cases "find (\<lambda>x. email x = b \<and> member_id x \<noteq> member_id m) (members w)")
      case None
      from holds have in_ms: "\<exists>x \<in> set (members w). member_id x = member_id m"
        using by_email_in [of a "members w" m] by blast
      have by_id: "by_id (member_id m)
            (map (\<lambda>x. if member_id x = member_id m then m\<lparr>email := b\<rparr> else x) (members w))
          = Some (m\<lparr>email := b\<rparr>)"
        by (rule by_id_updated [OF in_ms]) simp
      have by_email: "by_email b
            (map (\<lambda>x. if member_id x = member_id m then m\<lparr>email := b\<rparr> else x) (members w))
          = Some (m\<lparr>email := b\<rparr>)"
        by (rule by_email_updated [OF None in_ms]) simp
      from assms(1) new old holds None by_id by_email show ?thesis
        using redeem_change_ok [of getDataFromToken token data b a w m] by simp
    next
      case (Some other)
      with assms(1) new old holds show ?thesis
        using redeem_change_conflict [of getDataFromToken token data b a w m other] by simp
    qed
  next
    case None
    note missing = this
    show ?thesis
    proof (cases "by_email b (members w)")
      case None
      with assms(1) new old missing show ?thesis
        using redeem_change_missing_created [of getDataFromToken token data b a w]
        by (simp add: Let_def)
    next
      case (Some holder)
      with assms(1) new old missing show ?thesis
        using redeem_change_missing_conflict [of getDataFromToken token data b a w holder]
        by (simp add: Let_def)
    qed
  qed
qed

theorem redeem_email_change_witness:
  "getMemberDataFromMagicLinkToken token_alice_to_carol two_members ''token'' =
     (Inr (Some (alice\<lparr>email := ''carol@example.com''\<rparr>)),
      \<lparr>members = [alice\<lparr>email := ''carol@example.com''\<rparr>, bob],
       loginEvents = [1],
       calls = [BreadRead ''alice@example.com'', LoginEventAdd 1,
                UsersUpdate (alice\<lparr>email := ''carol@example.com''\<rparr>) 1,
                BreadRead ''carol@example.com'']\<rparr>)
   \<and> getMemberDataFromMagicLinkToken token_zed_to_bob two_members ''token'' =
     (Inl (ConflictError ''bob@example.com''),
      \<lparr>members = [alice, bob], loginEvents = [],
       calls = [BreadRead ''zed@example.com'', UsersCreate [] ''bob@example.com'' []]\<rparr>)
   \<and> getMemberDataFromMagicLinkToken token_zed_to_carol two_members ''token'' =
     (Inr (Some \<lparr>member_id = 3, email = ''carol@example.com'', name = [], labels = [],
                 geolocation = None\<rparr>),
      \<lparr>members = [alice, bob, \<lparr>member_id = 3, email = ''carol@example.com'', name = [],
                                labels = [], geolocation = None\<rparr>],
       loginEvents = [3],
       calls = [BreadRead ''zed@example.com'', UsersCreate [] ''carol@example.com'' [],
                LoginEventAdd 3, BreadRead ''carol@example.com'']\<rparr>)"
  using redeem_email_change [of token_alice_to_carol "''token''"
          "\<lparr>tok_email = Some ''carol@example.com'', tok_labels = None, tok_name = None,
            tok_oldEmail = Some ''alice@example.com''\<rparr>"
          "''carol@example.com''" "''alice@example.com''" two_members]
        redeem_email_change [of token_zed_to_bob "''token''"
          "\<lparr>tok_email = Some ''bob@example.com'', tok_labels = None, tok_name = None,
            tok_oldEmail = Some ''zed@example.com''\<rparr>"
          "''bob@example.com''" "''zed@example.com''" two_members]
        redeem_email_change [of token_zed_to_carol "''token''"
          "\<lparr>tok_email = Some ''carol@example.com'', tok_labels = None, tok_name = None,
            tok_oldEmail = Some ''zed@example.com''\<rparr>"
          "''carol@example.com''" "''zed@example.com''" two_members]
  by (simp add: token_alice_to_carol_def token_zed_to_bob_def token_zed_to_carol_def
        two_members_def alice_def bob_def by_email_def Let_def)

subsection \<open>The webhook handler\<close>

text \<open>
  C3. The handler calls \<^verbatim>\<open>parseWebhook\<close> when Stripe is configured and the request has
  a body and a signature header. When \<^verbatim>\<open>parseWebhook\<close> then fails, the handler responds
  with 401, \<^verbatim>\<open>handleWebhook\<close> is not invoked, and the state of members, subscriptions
  and events is the one before the request.
\<close>

theorem webhook_signature_failure:
  assumes "configured"
    and "body req = Some raw"
    and "stripe_signature req = Some signature" and "signature \<noteq> []"
    and "parseWebhook raw signature = Inl err"
  shows "handleStripeWebhook configured parseWebhook handleWebhook req s =
           \<lparr>res_status = Some 401, res_ended = True, rejected = None,
            logged = [LogError (message err)],
            invoked = [ParseWebhook raw signature], state = s\<rparr>"
  using assms by (simp add: handleStripeWebhook_def truthy_def)

theorem webhook_signature_failure_witness:
  "handleStripeWebhook True parse_rejects handle_mutates webhook_request one_member =
     \<lparr>res_status = Some 401, res_ended = True, rejected = None,
      logged = [LogError ''No signatures found matching the expected signature''],
      invoked = [ParseWebhook ''{}'' ''t=1,v1=5257a8''], state = one_member\<rparr>"
  using webhook_signature_failure [of True webhook_request "''{}''" "''t=1,v1=5257a8''"
          parse_rejects
          "\<lparr>statusCode = None, message = ''No signatures found matching the expected signature''\<rparr>"
          handle_mutates one_member]
  by (simp add: webhook_request_def parse_rejects_def)




subsection \<open>setMemberGeolocationFromIp\<close>

lemma digits_nonempty: "digits n \<noteq> []"
  by (subst digits.simps) simp

lemma stringify_nonempty: "stringify j \<noteq> []"
  by (cases j) (simp_all add: show_int_def quote_def digits_nonempty)

text \<open>
  The guard \<^verbatim>\<open>if (geolocation)\<close> skips the update for \<^verbatim>\<open>undefined\<close> only: the text
  of every JSON value, that of null too, is a non-empty string.
\<close>

lemma truthy_JSON_stringify:
  "truthy (JSON_stringify v) = (case v of None \<Rightarrow> None | Some j \<Rightarrow> Some (stringify j))"
  by (simp add: truthy_def JSON_stringify_def stringify_nonempty split: option.splits)

lemma geolocation_missing_member:
  assumes "e \<noteq> []" and "ip \<noteq> []" and "by_email e (members w) = None"
  shows "setMemberGeolocationFromIp getGeolocationFromIP w e ip =
           (Inl (TypeError ''Cannot read properties of null (reading 'toJSON')''),
            w\<lparr>calls := calls w @ [UsersGet e]\<rparr>)"
  using assms by (simp add: setMemberGeolocationFromIp_def users_get_def called_def)

text \<open>
  C7, as the specification states it, fails. When the lookup throws, the operation fails with the
  error of the lookup. When the lookup yields null, the geolocation of the member is
  overwritten with the text null.
\<close>

theorem geolocation_failure_counterexample:
  "fst (setMemberGeolocationFromIp geo_times_out one_member ''alice@example.com'' ''203.0.113.7'')
     = Inl (ServiceError ''Timeout awaiting request for 500ms'')
   \<and> map geolocation (members one_member) = [None]
   \<and> map geolocation (members (snd
        (setMemberGeolocationFromIp geo_null one_member ''alice@example.com'' ''203.0.113.7'')))
     = [Some ''null'']"
  by (simp add: setMemberGeolocationFromIp_def users_get_def users_update_def called_def
        getMemberIdentityData_def memberBREADService_read_def toJSON_def object_truthy_def
        JSON_stringify_def truthy_def geo_times_out_def geo_null_def one_member_def alice_def
        by_email_def by_id_def Let_def)

text \<open>
  C7, amended. For a call to \<^verbatim>\<open>setMemberGeolocationFromIp\<close> on an existing member, a
  lookup that yields no value (undefined) does not fail the operation: the member table
  is unchanged, no update is made, and the identity data of the member is returned. A
  lookup that throws fails the operation with the error of the lookup, and the member
  table is unchanged.
\<close>

theorem geolocation_no_result:
  assumes "e \<noteq> []" and "ip \<noteq> []" and "by_email e (members w) = Some m"
  shows "(getGeolocationFromIP ip = Inr None \<longrightarrow>
            setMemberGeolocationFromIp getGeolocationFromIP w e ip =
              (Inr (Some m), w\<lparr>calls := calls w @ [UsersGet e, BreadRead e]\<rparr>))
         \<and> (\<forall>err. getGeolocationFromIP ip = Inl err \<longrightarrow>
            setMemberGeolocationFromIp getGeolocationFromIP w e ip =
              (Inl err, w\<lparr>calls := calls w @ [UsersGet e]\<rparr>))"
  using assms
  by (simp add: setMemberGeolocationFromIp_def users_get_def called_def
        getMemberIdentityData_def memberBREADService_read_def toJSON_def object_truthy_def
        JSON_stringify_def truthy_def)

theorem geolocation_no_result_witness:
  "setMemberGeolocationFromIp geo_undefined one_member ''alice@example.com'' ''203.0.113.7''
     = (Inr (Some alice),
        \<lparr>members = [alice], loginEvents = [],
         calls = [UsersGet ''alice@example.com'', BreadRead ''alice@example.com'']\<rparr>)
   \<and> setMemberGeolocationFromIp geo_times_out one_member ''alice@example.com'' ''203.0.113.7''
     = (Inl (ServiceError ''Timeout awaiting request for 500ms''),
        \<lparr>members = [alice], loginEvents = [], calls = [UsersGet ''alice@example.com'']\<rparr>)"
  using geolocation_no_result [of "''alice@example.com''" "''203.0.113.7''" one_member alice
          geo_undefined]
        geolocation_no_result [of "''alice@example.com''" "''203.0.113.7''" one_member alice
          geo_times_out]
  by (simp add: geo_undefined_def geo_times_out_def one_member_def alice_def by_email_def)

text \<open>
  C8. With a non-empty email and ip and no member with that email, the specification
  asks for a NotFound error. The code calls \<^verbatim>\<open>toJSON\<close> on the null that \<^verbatim>\<open>users.get\<close> yields,
  before its own check for a missing member: the operation fails with a TypeError, and
  the NotFoundError is never thrown. The member table is unchanged.
\<close>

theorem geolocation_missing_member_type_error:
  "by_email ''carol@example.com'' (members one_member) = None
   \<and> setMemberGeolocationFromIp geo_found one_member ''carol@example.com'' ''203.0.113.7''
     = (Inl (TypeError ''Cannot read properties of null (reading 'toJSON')''),
        \<lparr>members = [alice], loginEvents = [], calls = [UsersGet ''carol@example.com'']\<rparr>)"
  by (simp add: setMemberGeolocationFromIp_def users_get_def called_def one_member_def
        alice_def by_email_def)


end
